theory Spec2Isabelle
  imports Main "HOL-Library.FSet" "HOL-Library.AList"
begin

section \<open>Return-type inference of \<open>coloco/inference.py\<close>\<close>

text \<open>
  The development embeds the functions of \<open>src/coloco/inference.py\<close>:
  \<open>_snake_case_to_capital_case\<close>, \<open>_sanitize_name\<close>, \<open>_get_module_type\<close>,
  \<open>get_return_type\<close>, \<open>_analyze_function_body\<close>, \<open>_resolve_annotation\<close>,
  \<open>_infer_expr_type\<close>, \<open>_create_typed_dict_from_dict\<close> and
  \<open>fill_inferred_type_hints\<close>.  Exceptions are values of the type \<open>error\<close>; every
  function that can raise returns \<open>error + _\<close>.
\<close>

subsection \<open>Exceptions\<close>

datatype error =
  SyntaxError | ValueError | IndexError | TypeError | AttributeError | RecursionError

subsection \<open>Type objects\<close>

text \<open>
  The objects that inference computes with.  \<open>TClass n\<close> is a class object (a builtin
  such as \<open>int\<close>, or a class of a user module) known by its name; \<open>TObj n\<close> is an object
  that is no type and has no \<open>|\<close> operator, such as a builtin function;
  \<open>TList\<close>, \<open>TSet\<close>, \<open>TTuple\<close>, \<open>TDict\<close> are the generic aliases \<open>list[t]\<close>,
  \<open>set[t]\<close>, \<open>tuple[t1, ..., tn]\<close> (\<open>TTuple []\<close> is \<open>tuple[()]\<close>) and \<open>dict[k, v]\<close>;
  \<open>TypingDict\<close>, \<open>TypingTuple\<close> and \<open>TypingUnion\<close> are the unsubscripted
  \<open>typing.Dict\<close>, \<open>typing.Tuple\<close> and \<open>typing.Union\<close>.

  \<open>TypedDict i n fs\<close> is a class made by the call \<open>TypedDict(n, fs)\<close>.  Python compares
  classes by identity, and every such call makes a new class, so the model numbers them:
  \<open>i\<close> is the number of the call that made the class.

  \<open>TUnion ms\<close> is a union type.  Python compares unions as sets of members, and
  \<open>tuple(set(...))\<close> hands the members over in no fixed order, so the members are a finite
  set.
\<close>

datatype ty =
    TAny
  | TClass string
  | TObj string
  | TList ty
  | TSet ty
  | TTuple "ty list"
  | TDict ty ty
  | TypingDict
  | TypingTuple
  | TypingUnion
  | TypedDict nat string "(string \<times> ty) list"
  | TUnion "ty fset"

abbreviation py_int :: ty where "py_int \<equiv> TClass ''int''"
abbreviation py_str :: ty where "py_str \<equiv> TClass ''str''"
abbreviation py_float :: ty where "py_float \<equiv> TClass ''float''"
abbreviation py_bool :: ty where "py_bool \<equiv> TClass ''bool''"
abbreviation py_NoneType :: ty where "py_NoneType \<equiv> TClass ''NoneType''"

text \<open>\<open>isinstance(t, type)\<close>: classes, among them the classes made by \<open>TypedDict\<close>.\<close>

fun isinstance_type :: "ty \<Rightarrow> bool" where
  "isinstance_type (TClass n) = True"
| "isinstance_type (TypedDict i n fs) = True"
| "isinstance_type t = False"

subsection \<open>The operations of \<open>typing\<close> that the code calls\<close>

text \<open>
  \<open>typing\<close> checks every argument of \<open>Union[...]\<close>, \<open>Optional[...]\<close> and every field type
  of \<open>TypedDict(...)\<close>: a plain special form such as \<open>typing.Union\<close> is refused with a
  \<open>TypeError\<close> ("Plain typing.Union is not valid as type argument").
\<close>

fun valid_type_arg :: "ty \<Rightarrow> bool" where
  "valid_type_arg TypingUnion = False"
| "valid_type_arg t = True"

fun members :: "ty \<Rightarrow> ty fset" where
  "members (TUnion ms) = ms"
| "members t = {|t|}"

fun flatten :: "ty list \<Rightarrow> ty fset" where
  "flatten [] = {||}"
| "flatten (t # ts) = members t |\<union>| flatten ts"

text \<open>
  \<open>Union[params]\<close>: no parameter at all is a \<open>TypeError\<close> ("Cannot take a Union of no
  types"); the parameters are checked, unions among them are flattened, duplicates are
  removed, and a single remaining member is returned as it is.  A union object has two
  members or more, so a single remaining member is one of the parameters.
\<close>

definition Union_getitem :: "ty list \<Rightarrow> error + ty" where
  "Union_getitem params =
     (if params = [] \<or> \<not> list_all valid_type_arg params then Inl TypeError
      else let ms = flatten params in
        (case find (\<lambda>t. ms = {|t|}) params of
           Some t \<Rightarrow> Inr t
         | None \<Rightarrow> Inr (TUnion ms)))"

text \<open>\<open>Optional[t]\<close> is \<open>Union[t, NoneType]\<close>.\<close>

definition Optional_getitem :: "ty \<Rightarrow> error + ty" where
  "Optional_getitem t = Union_getitem [t, py_NoneType]"

text \<open>
  \<open>a | b\<close> on type objects: a \<open>TypeError\<close> when an operand has no \<open>|\<close> with types,
  otherwise \<open>Union[a, b]\<close>.
\<close>

fun unionable :: "ty \<Rightarrow> bool" where
  "unionable (TObj n) = False"
| "unionable t = True"

definition py_or :: "ty \<Rightarrow> ty \<Rightarrow> error + ty" where
  "py_or a b = (if unionable a \<and> unionable b then Union_getitem [a, b] else Inl TypeError)"

text \<open>
  \<open>TypedDict(name, fields)\<close>: the field types are checked, then a new class is made; the
  counter of classes made so far is the state.
\<close>

definition TypedDict_call :: "string \<Rightarrow> (string \<times> ty) list \<Rightarrow> nat \<Rightarrow> error + ty \<times> nat" where
  "TypedDict_call name fields k =
     (if list_all (\<lambda>(n, t). valid_type_arg t) fields
      then Inr (TypedDict k name fields, Suc k) else Inl TypeError)"

subsection \<open>Strings\<close>

text \<open>
  Names are ASCII strings.  \<open>str.isalnum\<close>, \<open>str.upper\<close> and \<open>str.lower\<close> are given on the
  ASCII letters and digits.
\<close>

definition lower_chars :: string where "lower_chars = ''abcdefghijklmnopqrstuvwxyz''"
definition upper_chars :: string where "upper_chars = ''ABCDEFGHIJKLMNOPQRSTUVWXYZ''"
definition digit_chars :: string where "digit_chars = ''0123456789''"

definition isalnum :: "char \<Rightarrow> bool" where
  "isalnum c = (c \<in> set (lower_chars @ upper_chars @ digit_chars))"

definition to_upper :: "char \<Rightarrow> char" where
  "to_upper c = (case map_of (zip lower_chars upper_chars) c of Some u \<Rightarrow> u | None \<Rightarrow> c)"

definition to_lower :: "char \<Rightarrow> char" where
  "to_lower c = (case map_of (zip upper_chars lower_chars) c of Some l \<Rightarrow> l | None \<Rightarrow> c)"

text \<open>\<open>str.capitalize\<close>: the first character in upper case, the rest in lower case.\<close>

fun capitalize :: "string \<Rightarrow> string" where
  "capitalize [] = []"
| "capitalize (c # cs) = to_upper c # map to_lower cs"

text \<open>\<open>name.split("_")\<close>\<close>

fun split_underscore :: "string \<Rightarrow> string list" where
  "split_underscore [] = [[]]"
| "split_underscore (c # cs) =
     (if c = CHR ''_'' then [] # split_underscore cs
      else (case split_underscore cs of
              w # ws \<Rightarrow> (c # w) # ws
            | [] \<Rightarrow> [[c]]))"

definition snake_case_to_capital_case :: "string \<Rightarrow> string" where
  "snake_case_to_capital_case name = concat (map capitalize (split_underscore name))"

subsection \<open>Syntax trees\<close>

text \<open>
  The nodes of the \<open>ast\<close> module that the code looks at.  A constant carries its value
  where the code reads it (string keys of a dict literal) and otherwise only what
  \<open>type(node.value)\<close> needs.  A dict literal is the list of its items; the key of an item
  \<open>**d\<close> is \<open>None\<close>, as in \<open>ast.Dict.keys\<close>.  \<open>Call f args\<close> has the callee and the
  positional arguments; \<open>Compare\<close> has the left operand and the comparators;
  \<open>OtherExpr\<close> stands for every other expression node (attribute access, lambda,
  comprehension, ...) with its subexpressions.
\<close>

datatype const_value =
    KInt int | KStr string | KFloat | KBool bool | KNone | KBytes | KComplex | KEllipsis

datatype operator = Add | Sub | Mult | Div | OtherOp

datatype expr =
    Dict "(expr option \<times> expr) list"
  | List "expr list"
  | Tuple "expr list"
  | Set "expr list"
  | Constant const_value
  | Name string
  | Call expr "expr list"
  | BinOp expr operator expr
  | Compare expr "expr list"
  | IfExp expr expr expr
  | Subscript expr expr
  | OtherExpr "expr list"

text \<open>
  Statements.  \<open>FunctionDef name args body returns\<close> has the positional parameters
  \<open>args.args\<close>, each with its optional annotation; \<open>Assign targets value\<close>;
  \<open>AnnAssign target annotation value\<close>; \<open>IfStmt test body orelse\<close> (the node \<open>ast.If\<close>);
  \<open>While test body orelse\<close>; \<open>For target iter body orelse\<close>; \<open>Expr value\<close>.
\<close>

datatype stmt =
    FunctionDef string "(string \<times> expr option) list" "stmt list" "expr option"
  | Return "expr option"
  | Assign "expr list" expr
  | AnnAssign expr expr "expr option"
  | IfStmt expr "stmt list" "stmt list"
  | While expr "stmt list" "stmt list"
  | For expr expr "stmt list" "stmt list"
  | Expr expr
  | Pass

text \<open>\<open>type(node.value)\<close> of a constant.\<close>

fun type_of_constant :: "const_value \<Rightarrow> ty" where
  "type_of_constant (KInt i) = py_int"
| "type_of_constant (KStr s) = py_str"
| "type_of_constant KFloat = py_float"
| "type_of_constant (KBool b) = py_bool"
| "type_of_constant KNone = py_NoneType"
| "type_of_constant KBytes = TClass ''bytes''"
| "type_of_constant KComplex = TClass ''complex''"
| "type_of_constant KEllipsis = TClass ''ellipsis''"

subsection \<open>Functions, modules and the interpreter state\<close>

text \<open>
  What \<open>get_return_type\<close> reads of a function object: \<open>__name__\<close>, \<open>__module__\<close>,
  \<open>__annotations__\<close> (\<open>None\<close> when the object has no such attribute) and the source.
  \<open>NoSource\<close>: \<open>inspect.getsource\<close> raises; \<open>Unparsable\<close>: it returns a text on which
  \<open>ast.parse\<close> raises; \<open>Parsed body\<close>: \<open>ast.parse\<close> returns a module with this body.
\<close>

datatype source = NoSource | Unparsable | Parsed "stmt list"

record callable =
  func_name :: string
  func_module :: string
  func_annotations :: "(string \<rightharpoonup> ty) option"
  func_source :: source

text \<open>
  An attribute of a module: a class (\<open>isinstance(result, type)\<close>), another callable, or
  anything else.  \<open>builtins\<close> is the dict \<open>__builtins__\<close>, \<open>sys_modules\<close> is
  \<open>sys.modules\<close> with the attributes of each module.
\<close>

datatype pyobj = OClass ty | OCallable callable | OOther

record world =
  builtins :: "string \<rightharpoonup> ty"
  sys_modules :: "string \<rightharpoonup> (string \<rightharpoonup> pyobj)"

text \<open>
  An element of \<open>nested_path\<close>.  The code appends key strings in one place and key nodes
  in another (\<open>nested_path + [key]\<close>), so an element is either.
\<close>

datatype path_elem = PStr string | PNode "expr option"

text \<open>
  \<open>_sanitize_name\<close> iterates over its argument: a node is not iterable, which is a
  \<open>TypeError\<close>.
\<close>

fun sanitize_name :: "path_elem \<Rightarrow> error + string" where
  "sanitize_name (PStr name) = Inr (filter isalnum name)"
| "sanitize_name (PNode n) = Inl TypeError"

subsection \<open>\<open>_get_module_type\<close>\<close>

text \<open>
  The inference functions call \<open>get_return_type\<close> on other callables through
  \<open>_get_module_type\<close>.  They take that recursive call as the parameter \<open>grt\<close>;
  \<open>get_return_type\<close> below closes the recursion.  The last argument and the second
  component of every result is the number of \<open>TypedDict\<close> classes made so far.

  A module that is not in \<open>sys.modules\<close> has none of the names looked up.
\<close>

type_synonym 'a result = "error + 'a \<times> nat"

definition get_module_type ::
  "(callable \<Rightarrow> nat \<Rightarrow> ty result) \<Rightarrow> world \<Rightarrow> callable \<Rightarrow> string \<Rightarrow> nat \<Rightarrow> ty result" where
  "get_module_type grt w func name k =
     (case sys_modules w (func_module func) of
        None \<Rightarrow> Inr (TAny, k)
      | Some module \<Rightarrow>
          (case module name of
             Some (OClass result) \<Rightarrow> Inr (result, k)
           | Some (OCallable result) \<Rightarrow> grt result k
           | _ \<Rightarrow> Inr (TAny, k)))"

subsection \<open>\<open>_resolve_annotation\<close>\<close>

text \<open>
  The parameter \<open>type_context\<close> of the source is passed along and never read; the model
  leaves it out.  \<open>annotation.slice.elts[0]\<close> and \<open>[1]\<close> raise \<open>IndexError\<close> on a tuple
  that is too short.
\<close>

function (sequential) resolve_annotation ::
  "(callable \<Rightarrow> nat \<Rightarrow> ty result) \<Rightarrow> world \<Rightarrow> expr \<Rightarrow> callable \<Rightarrow> nat \<Rightarrow> ty result"
and resolve_elts ::
  "(callable \<Rightarrow> nat \<Rightarrow> ty result) \<Rightarrow> world \<Rightarrow> expr list \<Rightarrow> callable \<Rightarrow> nat \<Rightarrow> (ty list) result"
where
  "resolve_annotation grt w (Name type_name) func k =
     (case builtins w type_name of
        Some t \<Rightarrow> Inr (t, k)
      | None \<Rightarrow> get_module_type grt w func type_name k)"
| "resolve_annotation grt w (Subscript (Name base_type) slice) func k =
     (if base_type = ''List'' \<or> base_type = ''list'' then
        (case resolve_annotation grt w slice func k of
           Inl e \<Rightarrow> Inl e
         | Inr (elem_type, k1) \<Rightarrow> Inr (TList elem_type, k1))
      else if base_type = ''Dict'' \<or> base_type = ''dict'' then
        (case slice of
           Tuple elts \<Rightarrow>
             (case elts of
                [] \<Rightarrow> Inl IndexError
              | e0 # rest \<Rightarrow>
                  (case resolve_annotation grt w e0 func k of
                     Inl e \<Rightarrow> Inl e
                   | Inr (key_type, k1) \<Rightarrow>
                       (case rest of
                          [] \<Rightarrow> Inl IndexError
                        | e1 # rest' \<Rightarrow>
                            (case resolve_annotation grt w e1 func k1 of
                               Inl e \<Rightarrow> Inl e
                             | Inr (val_type, k2) \<Rightarrow> Inr (TDict key_type val_type, k2)))))
         | _ \<Rightarrow> Inr (TypingDict, k))
      else if base_type = ''Set'' \<or> base_type = ''set'' then
        (case resolve_annotation grt w slice func k of
           Inl e \<Rightarrow> Inl e
         | Inr (elem_type, k1) \<Rightarrow> Inr (TSet elem_type, k1))
      else if base_type = ''Tuple'' \<or> base_type = ''tuple'' then
        (case slice of
           Tuple elts \<Rightarrow>
             (case resolve_elts grt w elts func k of
                Inl e \<Rightarrow> Inl e
              | Inr (elem_types, k1) \<Rightarrow> Inr (TTuple elem_types, k1))
         | _ \<Rightarrow> Inr (TypingTuple, k))
      else if base_type = ''Optional'' then
        (case resolve_annotation grt w slice func k of
           Inl e \<Rightarrow> Inl e
         | Inr (elem_type, k1) \<Rightarrow>
             (case Optional_getitem elem_type of
                Inl e \<Rightarrow> Inl e
              | Inr t \<Rightarrow> Inr (t, k1)))
      else if base_type = ''Union'' then
        (case slice of
           Tuple elts \<Rightarrow>
             (case resolve_elts grt w elts func k of
                Inl e \<Rightarrow> Inl e
              | Inr (elem_types, k1) \<Rightarrow>
                  (case Union_getitem elem_types of
                     Inl e \<Rightarrow> Inl e
                   | Inr t \<Rightarrow> Inr (t, k1)))
         | _ \<Rightarrow> Inr (TypingUnion, k))
      else Inr (TAny, k))"
| "resolve_annotation grt w annotation func k = Inr (TAny, k)"
| "resolve_elts grt w [] func k = Inr ([], k)"
| "resolve_elts grt w (e # es) func k =
     (case resolve_annotation grt w e func k of
        Inl err \<Rightarrow> Inl err
      | Inr (t, k1) \<Rightarrow>
          (case resolve_elts grt w es func k1 of
             Inl err \<Rightarrow> Inl err
           | Inr (ts, k2) \<Rightarrow> Inr (t # ts, k2)))"
  by pat_completeness auto
termination
  apply (relation "measure (\<lambda>x. case x of
      Inl (grt, w, annotation, r) \<Rightarrow> size annotation
    | Inr (grt, w, elts, r) \<Rightarrow> size_list size elts)")
  apply simp_all
  done

subsection \<open>\<open>_infer_expr_type\<close> and \<open>_create_typed_dict_from_dict\<close>\<close>

text \<open>
  The name of a synthesized class: the capitalized function name, \<open>Return\<close>, and one
  capitalized, sanitized word for each element of \<open>nested_path\<close>.
\<close>

fun class_name_loop :: "string \<Rightarrow> path_elem list \<Rightarrow> error + string" where
  "class_name_loop class_name [] = Inr class_name"
| "class_name_loop class_name (component # rest) =
     (case sanitize_name component of
        Inl e \<Rightarrow> Inl e
      | Inr s \<Rightarrow> class_name_loop (class_name @ snake_case_to_capital_case s) rest)"

definition typed_dict_class_name :: "callable \<Rightarrow> path_elem list \<Rightarrow> error + string" where
  "typed_dict_class_name func nested_path =
     class_name_loop (snake_case_to_capital_case (func_name func) @ ''Return'') nested_path"

text \<open>
  The last part of \<open>_create_typed_dict_from_dict\<close>: the \<open>dict\<close> type of the key types
  and the value types.  \<open>len(set(ts)) == 1\<close> is \<open>card (set ts) = 1\<close>, and
  \<open>Union[tuple(set(ts))]\<close> is \<open>Union_getitem (remdups ts)\<close>: the result of
  \<open>Union_getitem\<close> does not depend on the order of its parameters.
\<close>

definition Union_of_set :: "ty list \<Rightarrow> error + ty" where
  "Union_of_set ts = Union_getitem (remdups ts)"

definition common_dict_type :: "ty list \<Rightarrow> ty list \<Rightarrow> error + ty" where
  "common_dict_type key_types value_types =
     (if card (set key_types) = 1 \<and> card (set value_types) = 1 then
        Inr (TDict (hd key_types) (hd value_types))
      else if card (set key_types) = 1 then
        (case Union_of_set value_types of
           Inl e \<Rightarrow> Inl e
         | Inr v \<Rightarrow> Inr (TDict (hd key_types) v))
      else if card (set value_types) = 1 then
        (case Union_of_set key_types of
           Inl e \<Rightarrow> Inl e
         | Inr k \<Rightarrow> Inr (TDict k (hd value_types)))
      else
        (case Union_of_set key_types of
           Inl e \<Rightarrow> Inl e
         | Inr k \<Rightarrow>
             (case Union_of_set value_types of
                Inl e \<Rightarrow> Inl e
              | Inr v \<Rightarrow> Inr (TDict k v))))"

text \<open>The element type of a non-empty list or set literal.\<close>

definition common_elem_type :: "ty list \<Rightarrow> error + ty" where
  "common_elem_type element_types =
     (if card (set element_types) = 1 then Inr (hd element_types)
      else Union_of_set element_types)"

text \<open>
  \<open>infer_elts\<close> is the comprehension over \<open>node.elts\<close>; \<open>field_loop\<close> is the first loop
  of \<open>_create_typed_dict_from_dict\<close>, which stops at the first key that is no string
  constant and returns \<open>is_valid_typeddict\<close> and \<open>field_types\<close> (a dict, whose order is
  the order of first insertion); \<open>infer_keys\<close> and \<open>infer_values\<close> are the two
  comprehensions over the keys and the values.  The key \<open>None\<close> of an item \<open>**d\<close> is no
  node of any kind the code tests for, so its type is \<open>Any\<close>.
\<close>

function (sequential)
  infer_expr_type ::
    "(callable \<Rightarrow> nat \<Rightarrow> ty result) \<Rightarrow> world \<Rightarrow> expr \<Rightarrow> (string \<rightharpoonup> ty) \<Rightarrow> callable \<Rightarrow>
     path_elem list \<Rightarrow> nat \<Rightarrow> ty result"
and infer_elts ::
    "(callable \<Rightarrow> nat \<Rightarrow> ty result) \<Rightarrow> world \<Rightarrow> expr list \<Rightarrow> (string \<rightharpoonup> ty) \<Rightarrow> callable \<Rightarrow>
     path_elem list \<Rightarrow> nat \<Rightarrow> (ty list) result"
and create_typed_dict_from_dict ::
    "(callable \<Rightarrow> nat \<Rightarrow> ty result) \<Rightarrow> world \<Rightarrow> (expr option \<times> expr) list \<Rightarrow>
     (string \<rightharpoonup> ty) \<Rightarrow> callable \<Rightarrow> path_elem list \<Rightarrow> nat \<Rightarrow> ty result"
and field_loop ::
    "(callable \<Rightarrow> nat \<Rightarrow> ty result) \<Rightarrow> world \<Rightarrow> (expr option \<times> expr) list \<Rightarrow>
     (string \<rightharpoonup> ty) \<Rightarrow> callable \<Rightarrow> path_elem list \<Rightarrow> (string \<times> ty) list \<Rightarrow> nat \<Rightarrow>
     (bool \<times> (string \<times> ty) list) result"
and infer_keys ::
    "(callable \<Rightarrow> nat \<Rightarrow> ty result) \<Rightarrow> world \<Rightarrow> (expr option \<times> expr) list \<Rightarrow>
     (string \<rightharpoonup> ty) \<Rightarrow> callable \<Rightarrow> path_elem list \<Rightarrow> nat \<Rightarrow> (ty list) result"
and infer_values ::
    "(callable \<Rightarrow> nat \<Rightarrow> ty result) \<Rightarrow> world \<Rightarrow> (expr option \<times> expr) list \<Rightarrow>
     (string \<rightharpoonup> ty) \<Rightarrow> callable \<Rightarrow> path_elem list \<Rightarrow> nat \<Rightarrow> (ty list) result"
where
  "infer_expr_type grt w (Dict items) symbol_table func nested_path k =
     create_typed_dict_from_dict grt w items symbol_table func nested_path k"
| "infer_expr_type grt w (List elts) symbol_table func nested_path k =
     (if elts = [] then Inr (TList TAny, k)
      else
        (case infer_elts grt w elts symbol_table func nested_path k of
           Inl e \<Rightarrow> Inl e
         | Inr (element_types, k1) \<Rightarrow>
             (case common_elem_type element_types of
                Inl e \<Rightarrow> Inl e
              | Inr t \<Rightarrow> Inr (TList t, k1))))"
| "infer_expr_type grt w (Tuple elts) symbol_table func nested_path k =
     (if elts = [] then Inr (TTuple [], k)
      else
        (case infer_elts grt w elts symbol_table func nested_path k of
           Inl e \<Rightarrow> Inl e
         | Inr (element_types, k1) \<Rightarrow> Inr (TTuple element_types, k1)))"
| "infer_expr_type grt w (Set elts) symbol_table func nested_path k =
     (if elts = [] then Inr (TSet TAny, k)
      else
        (case infer_elts grt w elts symbol_table func nested_path k of
           Inl e \<Rightarrow> Inl e
         | Inr (element_types, k1) \<Rightarrow>
             (case common_elem_type element_types of
                Inl e \<Rightarrow> Inl e
              | Inr t \<Rightarrow> Inr (TSet t, k1))))"
| "infer_expr_type grt w (Constant v) symbol_table func nested_path k =
     Inr (type_of_constant v, k)"
| "infer_expr_type grt w (Name ident) symbol_table func nested_path k =
     (case symbol_table ident of
        Some t \<Rightarrow> Inr (t, k)
      | None \<Rightarrow>
          (case builtins w ident of
             Some t \<Rightarrow>
               (if isinstance_type t then Inr (t, k)
                else get_module_type grt w func ident k)
           | None \<Rightarrow> get_module_type grt w func ident k))"
| "infer_expr_type grt w (Call (Name callee_name) args) symbol_table func nested_path k =
     (if callee_name = ''int'' then Inr (py_int, k)
      else if callee_name = ''str'' then Inr (py_str, k)
      else if callee_name = ''float'' then Inr (py_float, k)
      else if callee_name = ''list'' then Inr (TList TAny, k)
      else if callee_name = ''dict'' then Inr (TDict TAny TAny, k)
      else if callee_name = ''set'' then Inr (TSet TAny, k)
      else if callee_name = ''tuple'' then Inr (TypingTuple, k)
      else get_module_type grt w func callee_name k)"
| "infer_expr_type grt w (Call callee args) symbol_table func nested_path k = Inr (TAny, k)"
| "infer_expr_type grt w (BinOp left op right) symbol_table func nested_path k =
     (case infer_expr_type grt w left symbol_table func nested_path k of
        Inl e \<Rightarrow> Inl e
      | Inr (left_type, k1) \<Rightarrow>
          (case infer_expr_type grt w right symbol_table func nested_path k1 of
             Inl e \<Rightarrow> Inl e
           | Inr (right_type, k2) \<Rightarrow>
               (if op = Add \<and> (left_type = py_str \<or> right_type = py_str) then Inr (py_str, k2)
                else if op \<in> {Add, Sub, Mult, Div} then
                  (if left_type = py_float \<or> right_type = py_float then Inr (py_float, k2)
                   else Inr (py_int, k2))
                else Inr (TAny, k2))))"
| "infer_expr_type grt w (Compare left comparators) symbol_table func nested_path k =
     Inr (py_bool, k)"
| "infer_expr_type grt w (IfExp test body orelse) symbol_table func nested_path k =
     (case infer_expr_type grt w body symbol_table func nested_path k of
        Inl e \<Rightarrow> Inl e
      | Inr (body_type, k1) \<Rightarrow>
          (case infer_expr_type grt w orelse symbol_table func nested_path k1 of
             Inl e \<Rightarrow> Inl e
           | Inr (orelse_type, k2) \<Rightarrow>
               (case py_or body_type orelse_type of
                  Inl e \<Rightarrow> Inl e
                | Inr t \<Rightarrow> Inr (t, k2))))"
| "infer_expr_type grt w node symbol_table func nested_path k = Inr (TAny, k)"
| "infer_elts grt w [] symbol_table func nested_path k = Inr ([], k)"
| "infer_elts grt w (elt # elts) symbol_table func nested_path k =
     (case infer_expr_type grt w elt symbol_table func nested_path k of
        Inl e \<Rightarrow> Inl e
      | Inr (t, k1) \<Rightarrow>
          (case infer_elts grt w elts symbol_table func nested_path k1 of
             Inl e \<Rightarrow> Inl e
           | Inr (ts, k2) \<Rightarrow> Inr (t # ts, k2)))"
| "create_typed_dict_from_dict grt w items symbol_table func nested_path k =
     (case field_loop grt w items symbol_table func nested_path [] k of
        Inl e \<Rightarrow> Inl e
      | Inr ((is_valid_typeddict, field_types), k1) \<Rightarrow>
          (if is_valid_typeddict \<and> field_types \<noteq> [] then
             (case typed_dict_class_name func nested_path of
                Inl e \<Rightarrow> Inl e
              | Inr class_name \<Rightarrow> TypedDict_call class_name field_types k1)
           else if items \<noteq> [] then
             (case infer_keys grt w items symbol_table func nested_path k1 of
                Inl e \<Rightarrow> Inl e
              | Inr (key_types, k2) \<Rightarrow>
                  (case infer_values grt w items symbol_table func nested_path k2 of
                     Inl e \<Rightarrow> Inl e
                   | Inr (value_types, k3) \<Rightarrow>
                       (case common_dict_type key_types value_types of
                          Inl e \<Rightarrow> Inl e
                        | Inr t \<Rightarrow> Inr (t, k3))))
           else Inr (TDict TAny TAny, k1)))"
| "field_loop grt w [] symbol_table func nested_path field_types k =
     Inr ((True, field_types), k)"
| "field_loop grt w ((Some (Constant (KStr key)), val) # rest) symbol_table func nested_path
       field_types k =
     (case infer_expr_type grt w val symbol_table func (nested_path @ [PStr key]) k of
        Inl e \<Rightarrow> Inl e
      | Inr (value_type, k1) \<Rightarrow>
          field_loop grt w rest symbol_table func nested_path
            (AList.update key value_type field_types) k1)"
| "field_loop grt w (item # rest) symbol_table func nested_path field_types k =
     Inr ((False, field_types), k)"
| "infer_keys grt w [] symbol_table func nested_path k = Inr ([], k)"
| "infer_keys grt w ((None, val) # rest) symbol_table func nested_path k =
     (case infer_keys grt w rest symbol_table func nested_path k of
        Inl e \<Rightarrow> Inl e
      | Inr (ts, k1) \<Rightarrow> Inr (TAny # ts, k1))"
| "infer_keys grt w ((Some key, val) # rest) symbol_table func nested_path k =
     (case infer_expr_type grt w key symbol_table func (nested_path @ [PNode (Some key)]) k of
        Inl e \<Rightarrow> Inl e
      | Inr (t, k1) \<Rightarrow>
          (case infer_keys grt w rest symbol_table func nested_path k1 of
             Inl e \<Rightarrow> Inl e
           | Inr (ts, k2) \<Rightarrow> Inr (t # ts, k2)))"
| "infer_values grt w [] symbol_table func nested_path k = Inr ([], k)"
| "infer_values grt w ((key, val) # rest) symbol_table func nested_path k =
     (case infer_expr_type grt w val symbol_table func nested_path k of
        Inl e \<Rightarrow> Inl e
      | Inr (t, k1) \<Rightarrow>
          (case infer_values grt w rest symbol_table func nested_path k1 of
             Inl e \<Rightarrow> Inl e
           | Inr (ts, k2) \<Rightarrow> Inr (t # ts, k2)))"
  by pat_completeness auto
termination
  apply (relation "measure (\<lambda>x. case x of
      Inl (Inl (grt, w, node, r)) \<Rightarrow> 2 * size node
    | Inl (Inr (Inl (grt, w, elts, r))) \<Rightarrow> 2 * size_list size elts
    | Inl (Inr (Inr (grt, w, items, r))) \<Rightarrow>
        2 * size_list (size_prod (size_option size) size) items + 1
    | Inr (Inl (grt, w, items, r)) \<Rightarrow>
        2 * size_list (size_prod (size_option size) size) items
    | Inr (Inr (Inl (grt, w, items, r))) \<Rightarrow>
        2 * size_list (size_prod (size_option size) size) items
    | Inr (Inr (Inr (grt, w, items, r))) \<Rightarrow>
        2 * size_list (size_prod (size_option size) size) items)")
  apply simp_all
  done

subsection \<open>\<open>ast.walk\<close>\<close>

text \<open>
  \<open>ast.walk\<close> yields the nodes below a node breadth first: it takes the first node of a
  queue, appends the children of that node in the order of its fields, and yields it.
  The code only looks for \<open>Return\<close>, \<open>Assign\<close> and \<open>AnnAssign\<close> nodes, which are
  statements.  Every statement is a child of a statement, and the expressions and the
  other nodes in the queue have no statement below them, so the statements come out of
  the full queue in the order in which they come out of the queue of statements alone.
\<close>

fun iter_child_stmts :: "stmt \<Rightarrow> stmt list" where
  "iter_child_stmts (FunctionDef name args body returns) = body"
| "iter_child_stmts (IfStmt test body orelse) = body @ orelse"
| "iter_child_stmts (While test body orelse) = body @ orelse"
| "iter_child_stmts (For target iter body orelse) = body @ orelse"
| "iter_child_stmts node = []"

function walk_queue :: "stmt list \<Rightarrow> stmt list" where
  "walk_queue [] = []"
| "walk_queue (node # todo) = node # walk_queue (todo @ iter_child_stmts node)"
  by pat_completeness auto
termination
proof (relation "measure (size_list size)")
  fix node :: stmt and todo :: "stmt list"
  have "size_list size (iter_child_stmts node) < Suc (size node)"
    by (cases node) simp_all
  then show "(todo @ iter_child_stmts node, node # todo) \<in> measure (size_list size)"
    by simp
qed simp

definition ast_walk :: "stmt \<Rightarrow> stmt list" where
  "ast_walk node = walk_queue [node]"

subsection \<open>\<open>_analyze_function_body\<close>\<close>

fun analyze_args ::
  "(callable \<Rightarrow> nat \<Rightarrow> ty result) \<Rightarrow> world \<Rightarrow> (string \<times> expr option) list \<Rightarrow>
   (string \<rightharpoonup> ty) \<Rightarrow> callable \<Rightarrow> nat \<Rightarrow> (string \<rightharpoonup> ty) result" where
  "analyze_args grt w [] symbol_table func k = Inr (symbol_table, k)"
| "analyze_args grt w ((arg, None) # rest) symbol_table func k =
     analyze_args grt w rest symbol_table func k"
| "analyze_args grt w ((arg, Some annotation) # rest) symbol_table func k =
     (case resolve_annotation grt w annotation func k of
        Inl e \<Rightarrow> Inl e
      | Inr (t, k1) \<Rightarrow> analyze_args grt w rest (symbol_table(arg \<mapsto> t)) func k1)"

fun assign_targets :: "expr list \<Rightarrow> ty \<Rightarrow> (string \<rightharpoonup> ty) \<Rightarrow> (string \<rightharpoonup> ty)" where
  "assign_targets [] assigned_type symbol_table = symbol_table"
| "assign_targets (Name ident # targets) assigned_type symbol_table =
     assign_targets targets assigned_type (symbol_table(ident \<mapsto> assigned_type))"
| "assign_targets (target # targets) assigned_type symbol_table =
     assign_targets targets assigned_type symbol_table"

fun analyze_nodes ::
  "(callable \<Rightarrow> nat \<Rightarrow> ty result) \<Rightarrow> world \<Rightarrow> stmt list \<Rightarrow> (string \<rightharpoonup> ty) \<Rightarrow> callable \<Rightarrow>
   nat \<Rightarrow> (string \<rightharpoonup> ty) result" where
  "analyze_nodes grt w [] symbol_table func k = Inr (symbol_table, k)"
| "analyze_nodes grt w (Assign targets val # rest) symbol_table func k =
     (case infer_expr_type grt w val symbol_table func [] k of
        Inl e \<Rightarrow> Inl e
      | Inr (assigned_type, k1) \<Rightarrow>
          analyze_nodes grt w rest (assign_targets targets assigned_type symbol_table) func k1)"
| "analyze_nodes grt w (AnnAssign (Name ident) annotation val # rest) symbol_table func k =
     (case resolve_annotation grt w annotation func k of
        Inl e \<Rightarrow> Inl e
      | Inr (t, k1) \<Rightarrow> analyze_nodes grt w rest (symbol_table(ident \<mapsto> t)) func k1)"
| "analyze_nodes grt w (node # rest) symbol_table func k =
     analyze_nodes grt w rest symbol_table func k"

text \<open>
  \<open>func_def.args\<close> exists on a function definition only; \<open>get_return_type\<close> passes no
  other node.
\<close>

fun analyze_function_body ::
  "(callable \<Rightarrow> nat \<Rightarrow> ty result) \<Rightarrow> world \<Rightarrow> stmt \<Rightarrow> (string \<rightharpoonup> ty) \<Rightarrow> callable \<Rightarrow>
   nat \<Rightarrow> (string \<rightharpoonup> ty) result" where
  "analyze_function_body grt w (FunctionDef name args body returns) symbol_table func k =
     (case analyze_args grt w args symbol_table func k of
        Inl e \<Rightarrow> Inl e
      | Inr (symbol_table1, k1) \<Rightarrow>
          analyze_nodes grt w (ast_walk (FunctionDef name args body returns))
            symbol_table1 func k1)"
| "analyze_function_body grt w func_def symbol_table func k = Inl AttributeError"

subsection \<open>\<open>get_return_type\<close>\<close>

text \<open>The loop over the return statements, \<open>if isinstance(node, ast.Return) and node.value\<close>.\<close>

fun infer_returns ::
  "(callable \<Rightarrow> nat \<Rightarrow> ty result) \<Rightarrow> world \<Rightarrow> stmt list \<Rightarrow> (string \<rightharpoonup> ty) \<Rightarrow> callable \<Rightarrow>
   nat \<Rightarrow> (ty list) result" where
  "infer_returns grt w [] symbol_table func k = Inr ([], k)"
| "infer_returns grt w (Return (Some val) # rest) symbol_table func k =
     (case infer_expr_type grt w val symbol_table func [] k of
        Inl e \<Rightarrow> Inl e
      | Inr (return_type, k1) \<Rightarrow>
          (case infer_returns grt w rest symbol_table func k1 of
             Inl e \<Rightarrow> Inl e
           | Inr (return_types, k2) \<Rightarrow> Inr (return_type # return_types, k2)))"
| "infer_returns grt w (node # rest) symbol_table func k =
     infer_returns grt w rest symbol_table func k"

text \<open>
  The part of \<open>get_return_type\<close> after the function definition has been found and has no
  \<open>returns\<close> annotation.
\<close>

definition infer_from_body ::
  "(callable \<Rightarrow> nat \<Rightarrow> ty result) \<Rightarrow> world \<Rightarrow> stmt \<Rightarrow> callable \<Rightarrow> nat \<Rightarrow> ty result" where
  "infer_from_body grt w func_def func k =
     (case analyze_function_body grt w func_def Map.empty func k of
        Inl e \<Rightarrow> Inl e
      | Inr (symbol_table, k1) \<Rightarrow>
          (case infer_returns grt w (ast_walk func_def) symbol_table func k1 of
             Inl e \<Rightarrow> Inl e
           | Inr (return_types, k2) \<Rightarrow>
               (if return_types \<noteq> [] then
                  (if length return_types = 1 then Inr (hd return_types, k2)
                   else
                     (case Union_of_set return_types of
                        Inl e \<Rightarrow> Inl e
                      | Inr t \<Rightarrow> Inr (t, k2)))
                else Inr (TAny, k2))))"

text \<open>
  \<open>func.__annotations__["return"]\<close>, when
  \<open>hasattr(func, "__annotations__") and "return" in func.__annotations__\<close>.
\<close>

definition return_annotation :: "callable \<Rightarrow> ty option" where
  "return_annotation func =
     (case func_annotations func of
        None \<Rightarrow> None
      | Some annotations \<Rightarrow> annotations ''return'')"

definition get_return_type_body ::
  "(callable \<Rightarrow> nat \<Rightarrow> ty result) \<Rightarrow> world \<Rightarrow> callable \<Rightarrow> nat \<Rightarrow> ty result" where
  "get_return_type_body grt w func k =
     (case return_annotation func of
        Some t \<Rightarrow> Inr (t, k)
      | None \<Rightarrow>
        (case func_source func of
           NoSource \<Rightarrow> Inr (TAny, k)
         | Unparsable \<Rightarrow> Inl SyntaxError
         | Parsed module_body \<Rightarrow>
             (case module_body of
                [] \<Rightarrow> Inl IndexError
              | func_def # others \<Rightarrow>
                  (case func_def of
                     FunctionDef name args body returns \<Rightarrow>
                       (case returns of
                          Some annotation \<Rightarrow> resolve_annotation grt w annotation func k
                        | None \<Rightarrow> infer_from_body grt w func_def func k)
                   | _ \<Rightarrow> Inl ValueError))))"

text \<open>
  \<open>get_return_type\<close> calls itself through \<open>_get_module_type\<close>.  Python ends a recursion
  that is too deep with a \<open>RecursionError\<close>; \<open>depth\<close> is the number of nested calls of
  \<open>get_return_type\<close> that the interpreter still allows.
\<close>

primrec get_return_type :: "nat \<Rightarrow> world \<Rightarrow> callable \<Rightarrow> nat \<Rightarrow> ty result" where
  "get_return_type 0 w func k = Inl RecursionError"
| "get_return_type (Suc depth) w func k =
     get_return_type_body (get_return_type depth w) w func k"

subsection \<open>\<open>fill_inferred_type_hints\<close>\<close>

text \<open>
  The function object is updated in place; the model returns the updated object.
  \<open>not getattr(func, "__annotations__", None)\<close> holds when the attribute is missing and
  when it is an empty dict.
\<close>

definition fill_inferred_type_hints ::
  "nat \<Rightarrow> world \<Rightarrow> callable \<Rightarrow> nat \<Rightarrow> callable result" where
  "fill_inferred_type_hints depth w func k =
     (let annotations =
            (case func_annotations func of
               None \<Rightarrow> Map.empty
             | Some a \<Rightarrow> if a = Map.empty then Map.empty else a);
          func1 = func\<lparr>func_annotations := Some annotations\<rparr>
      in if annotations ''return'' = None then
           (case get_return_type depth w func1 k of
              Inl e \<Rightarrow> Inl e
            | Inr (t, k1) \<Rightarrow>
                Inr (func1\<lparr>func_annotations := Some (annotations(''return'' \<mapsto> t))\<rparr>, k1))
         else Inr (func1, k))"

subsection \<open>Straight-line assignments\<close>

text \<open>The statements \<open>Assign\<close> and \<open>AnnAssign\<close>, which contain no other statement.\<close>

definition is_assign :: "stmt \<Rightarrow> bool" where
  "is_assign node = (case node of Assign targets val \<Rightarrow> True | AnnAssign target annotation val \<Rightarrow> True | _ \<Rightarrow> False)"

section \<open>Example programs\<close>

text \<open>
  A world with a few builtins and one module \<open>app\<close>, and functions of that module,
  used to run the code on concrete inputs.
\<close>

definition example_builtins :: "string \<rightharpoonup> ty" where
  "example_builtins =
     [''int'' \<mapsto> py_int, ''str'' \<mapsto> py_str, ''float'' \<mapsto> py_float, ''bool'' \<mapsto> py_bool,
      ''len'' \<mapsto> TObj ''len'']"

definition empty_world :: world where
  "empty_world = \<lparr>builtins = example_builtins, sys_modules = Map.empty\<rparr>"

text \<open>\<open>def name(): body\<close> in the module \<open>app\<close>, with \<open>__annotations__ == {}\<close>.\<close>

definition plain_function :: "string \<Rightarrow> stmt list \<Rightarrow> callable" where
  "plain_function name body =
     \<lparr>func_name = name, func_module = ''app'', func_annotations = Some Map.empty,
      func_source = Parsed [FunctionDef name [] body None]\<rparr>"

text \<open>The literal \<open>{"a": 1, "b": "x"}\<close>.\<close>

definition dict_a_b :: expr where
  "dict_a_b =
     Dict [(Some (Constant (KStr ''a'')), Constant (KInt 1)),
           (Some (Constant (KStr ''b'')), Constant (KStr ''x''))]"

text \<open>
  \<open>def count(xs: int) -> int: return "text"\<close> with its runtime annotations, and
  \<open>def names() -> list[str]: return 1\<close> whose \<open>__annotations__\<close> has been emptied.
\<close>

definition annotated_function :: callable where
  "annotated_function =
     \<lparr>func_name = ''count'', func_module = ''app'',
      func_annotations = Some [''xs'' \<mapsto> py_int, ''return'' \<mapsto> py_int],
      func_source = Parsed [FunctionDef ''count'' [(''xs'', Some (Name ''int''))]
        [Return (Some (Constant (KStr ''text'')))] (Some (Name ''int''))]\<rparr>"

definition signature_function :: callable where
  "signature_function =
     \<lparr>func_name = ''names'', func_module = ''app'', func_annotations = Some Map.empty,
      func_source = Parsed [FunctionDef ''names'' []
        [Return (Some (Constant (KInt 1)))] (Some (Subscript (Name ''list'') (Name ''str'')))]\<rparr>"

text \<open>
  The function \<open>get_user\<close> with body \<open>return {"a": 1, "b": "x"}\<close> after
  \<open>fill_inferred_type_hints\<close> has run on it.
\<close>

definition filled_function :: callable where
  "filled_function =
     \<lparr>func_name = ''get_user'', func_module = ''app'',
      func_annotations = Some [''return'' \<mapsto>
        TypedDict 0 ''GetUserReturn'' [(''a'', py_int), (''b'', py_str)]],
      func_source = Parsed [FunctionDef ''get_user'' [] [Return (Some dict_a_b)] None]\<rparr>"

text \<open>
  \<open>def f(): return x; x = 1\<close>, and a function with a nested definition:
  \<open>def f(): def helper(): x = "s"; return x\<close> followed by \<open>x = 1; return 1.5\<close>.
\<close>

definition return_before_assign :: "stmt list" where
  "return_before_assign = [Return (Some (Name ''x'')), Assign [Name ''x''] (Constant (KInt 1))]"

definition nested_def :: stmt where
  "nested_def =
     FunctionDef ''helper'' []
       [Assign [Name ''x''] (Constant (KStr ''s'')), Return (Some (Name ''x''))] None"

definition nested_body :: "stmt list" where
  "nested_body =
     [nested_def, Assign [Name ''x''] (Constant (KInt 1)), Return (Some (Constant KFloat))]"


section \<open>Properties\<close>

subsection \<open>Auxiliary facts\<close>

lemma analyze_args_unannotated:
  "\<forall>p \<in> set args. snd p = None \<Longrightarrow>
   analyze_args grt w args symbol_table func k = Inr (symbol_table, k)"
  by (induction args) auto

subsection \<open>Explicit annotations\<close>

text \<open>
  C1.  A function with an explicit return annotation gets exactly that annotation:
  when \<open>__annotations__\<close> has the key \<open>return\<close>, its value is returned as it is; when it
  has not and the parsed definition has a \<open>returns\<close> annotation, the result is that of
  \<open>_resolve_annotation\<close> on it.  Neither result mentions the body of the function.
\<close>

theorem explicit_annotation_wins:
  "(return_annotation func = Some t \<longrightarrow>
      get_return_type (Suc depth) w func k = Inr (t, k)) \<and>
   (return_annotation func = None \<and>
    func_source func = Parsed (FunctionDef name args body (Some annotation) # others) \<longrightarrow>
      get_return_type (Suc depth) w func k =
        resolve_annotation (get_return_type depth w) w annotation func k)"
  by (simp add: get_return_type_body_def)

theorem explicit_annotation_wins_witness:
  "return_annotation annotated_function = Some py_int \<and>
   get_return_type (Suc 0) empty_world annotated_function 0 = Inr (py_int, 0) \<and>
   return_annotation signature_function = None \<and>
   get_return_type (Suc 0) empty_world signature_function 0 = Inr (TList py_str, 0)"
proof -
  have a: "return_annotation annotated_function = Some py_int"
    by (simp add: return_annotation_def annotated_function_def)
  have b: "return_annotation signature_function = None"
    by (simp add: return_annotation_def signature_function_def)
  have c: "func_source signature_function =
      Parsed (FunctionDef ''names'' [] [Return (Some (Constant (KInt 1)))]
        (Some (Subscript (Name ''list'') (Name ''str''))) # [])"
    by (simp add: signature_function_def)
  have d: "resolve_annotation (get_return_type 0 empty_world) empty_world
      (Subscript (Name ''list'') (Name ''str'')) signature_function 0 = Inr (TList py_str, 0)"
    by (simp add: empty_world_def example_builtins_def)
  from explicit_annotation_wins [of annotated_function py_int 0 empty_world 0] a
  have "get_return_type (Suc 0) empty_world annotated_function 0 = Inr (py_int, 0)"
    by blast
  moreover from explicit_annotation_wins [of signature_function _ 0 empty_world 0] b c d
  have "get_return_type (Suc 0) empty_world signature_function 0 = Inr (TList py_str, 0)"
    by metis
  ultimately show ?thesis using a b by simp
qed

subsection \<open>A dict literal as the only return value\<close>

text \<open>
  C4.  A function without return annotation and without annotated parameters whose body
  is \<open>return {"a": 1, "b": "x"}\<close> gets a \<open>TypedDict\<close> class with the fields \<open>a: int\<close> and
  \<open>b: str\<close> in this order; the name of the class is the capitalized name of the function
  followed by \<open>Return\<close>.
\<close>

theorem dict_literal_return:
  assumes "return_annotation func = None"
    and "func_source func = Parsed (FunctionDef name args [Return (Some dict_a_b)] None # others)"
    and "\<forall>p \<in> set args. snd p = None"
  shows "get_return_type (Suc depth) w func k =
    Inr (TypedDict k (snake_case_to_capital_case (func_name func) @ ''Return'')
           [(''a'', py_int), (''b'', py_str)], Suc k)"
  using assms
  by (simp add: get_return_type_body_def infer_from_body_def analyze_args_unannotated
      ast_walk_def dict_a_b_def typed_dict_class_name_def TypedDict_call_def)

theorem dict_literal_return_witness:
  "get_return_type (Suc 0) empty_world
     (plain_function ''get_user'' [Return (Some dict_a_b)]) 0 =
   Inr (TypedDict 0 ''GetUserReturn'' [(''a'', py_int), (''b'', py_str)], Suc 0)"
proof -
  let ?f = "plain_function ''get_user'' [Return (Some dict_a_b)]"
  have a: "return_annotation ?f = None"
    by (simp add: return_annotation_def plain_function_def)
  have b: "func_source ?f =
      Parsed (FunctionDef ''get_user'' [] [Return (Some dict_a_b)] None # [])"
    by (simp add: plain_function_def)
  have c: "\<forall>p \<in> set ([] :: (string \<times> expr option) list). snd p = None"
    by simp
  have d: "snake_case_to_capital_case (func_name ?f) @ ''Return'' = ''GetUserReturn''"
    by (simp add: plain_function_def snake_case_to_capital_case_def to_upper_def to_lower_def
        lower_chars_def upper_chars_def)
  from dict_literal_return [OF a b c, of 0 empty_world 0] d show ?thesis
    by simp
qed

subsection \<open>Source that does not parse\<close>

text \<open>
  C7.  When \<open>inspect.getsource\<close> returns a text on which \<open>ast.parse\<close> raises,
  \<open>get_return_type\<close> raises too: the call of \<open>ast.parse\<close> is outside the \<open>try\<close> block
  that turns a failure of \<open>inspect.getsource\<close> into \<open>Any\<close>.
\<close>

theorem unparsable_source_raises:
  "get_return_type (Suc depth) w
     \<lparr>func_name = name, func_module = module, func_annotations = None,
      func_source = Unparsable\<rparr> k = Inl SyntaxError"
  by (simp add: get_return_type_body_def return_annotation_def)

subsection \<open>Filling in the inferred annotation\<close>

text \<open>
  The inference functions read of \<open>func\<close> only \<open>__name__\<close> and \<open>__module__\<close>, and
  \<open>get_return_type\<close> reads in addition the source and the \<open>return\<close> annotation.
\<close>

lemma resolve_func_cong:
  assumes "func_module f' = func_module f"
  shows "resolve_annotation grt w a f k = resolve_annotation grt w a f' k"
    and "resolve_elts grt w es f k = resolve_elts grt w es f' k"
  using assms
proof (induction grt w a f k and grt w es f k rule: resolve_annotation_resolve_elts.induct)
  case (2 grt w base_type slice func k)
  show ?case
  proof (cases "base_type = ''List'' \<or> base_type = ''list''")
    case True
    with "2.IH"(1) "2.prems" show ?thesis by simp
  next
    case nl: False
    show ?thesis
    proof (cases "base_type = ''Dict'' \<or> base_type = ''dict''")
      case True
      show ?thesis
      proof (cases slice)
        case (Tuple elts)
        show ?thesis
        proof (cases elts)
          case Nil
          then show ?thesis using nl True Tuple by simp
        next
          case (Cons e0 rest)
          have a: "resolve_annotation grt w e0 func k = resolve_annotation grt w e0 f' k"
            using "2.IH"(2) [OF nl True Tuple Cons] "2.prems" by simp
          have b: "resolve_annotation grt w e0 func k = Inr (x, y) \<Longrightarrow> rest = e1 # rest' \<Longrightarrow>
            resolve_annotation grt w e1 func y = resolve_annotation grt w e1 f' y" for x y e1 rest'
            using "2.IH"(3) [OF nl True Tuple Cons] "2.prems" by simp
          show ?thesis
            using nl True Tuple Cons a b
            by (auto split: sum.splits list.splits)
        qed
      qed (use nl True in simp_all)
    next
      case nd: False
      show ?thesis
      proof (cases "base_type = ''Set'' \<or> base_type = ''set''")
        case True
        with "2.IH"(4) nl nd "2.prems" show ?thesis by simp
      next
        case ns: False
        show ?thesis
        proof (cases "base_type = ''Tuple'' \<or> base_type = ''tuple''")
          case True
          show ?thesis
          proof (cases slice)
            case (Tuple elts)
            with "2.IH"(5) [OF nl nd ns True Tuple] "2.prems" nl nd ns True show ?thesis by simp
          qed (use nl nd ns True in simp_all)
        next
          case nt: False
          show ?thesis
          proof (cases "base_type = ''Optional''")
            case True
            with "2.IH"(6) [OF nl nd ns nt True] "2.prems" show ?thesis by simp
          next
            case no: False
            show ?thesis
            proof (cases "base_type = ''Union''")
              case True
              show ?thesis
              proof (cases slice)
                case (Tuple elts)
                with "2.IH"(7) [OF nl nd ns nt no True Tuple] "2.prems" True show ?thesis by simp
              qed (use True in simp_all)
            next
              case False
              then show ?thesis using nl nd ns nt no by simp
            qed
          qed
        qed
      qed
    qed
  qed
next
  case (1 grt w type_name func k)
  then show ?case by (simp add: get_module_type_def split: option.splits)
next
  case (5 grt w e es func k)
  then show ?case by (auto split: sum.splits)
qed simp_all


lemma infer_func_cong:
  assumes "func_name f' = func_name f" "func_module f' = func_module f"
  shows "infer_expr_type grt w node st f p k = infer_expr_type grt w node st f' p k"
    and "infer_elts grt w es st f p k = infer_elts grt w es st f' p k"
    and "create_typed_dict_from_dict grt w items st f p k = create_typed_dict_from_dict grt w items st f' p k"
    and "field_loop grt w items st f p fts k = field_loop grt w items st f' p fts k"
    and "infer_keys grt w items st f p k = infer_keys grt w items st f' p k"
    and "infer_values grt w items st f p k = infer_values grt w items st f' p k"
  using assms
proof (induction grt w node st f p k and grt w es st f p k and grt w items st f p k
    and grt w items st f p fts k and grt w items st f p k and grt w items st f p k
    rule: infer_expr_type_infer_elts_create_typed_dict_from_dict_field_loop_infer_keys_infer_values.induct)
  case (15 grt w items symbol_table func nested_path k)
  have fl: "field_loop grt w items symbol_table func nested_path [] k =
      field_loop grt w items symbol_table f' nested_path [] k"
    using "15.IH"(1) "15.prems" by simp
  show ?case
  proof (cases "field_loop grt w items symbol_table func nested_path [] k")
    case (Inl e)
    then show ?thesis using fl by simp
  next
    case (Inr r)
    obtain v fts k1 where r: "r = ((v, fts), k1)"
      by (cases r) auto
    have fl1: "field_loop grt w items symbol_table func nested_path [] k = Inr ((v, fts), k1)"
      using Inr r by simp
    have fl2: "field_loop grt w items symbol_table f' nested_path [] k = Inr ((v, fts), k1)"
      using fl fl1 by simp
    show ?thesis
    proof (cases "v \<and> fts \<noteq> []")
      case True
      then show ?thesis using fl1 fl2 "15.prems" by (simp add: typed_dict_class_name_def)
    next
      case nv: False
      show ?thesis
      proof (cases "items = []")
        case True
        then show ?thesis using fl1 fl2 nv by auto
      next
        case ne: False
        have ks: "infer_keys grt w items symbol_table func nested_path k1 =
            infer_keys grt w items symbol_table f' nested_path k1"
          using "15.IH"(2) fl1 nv ne "15.prems" by auto
        show ?thesis
        proof (cases "infer_keys grt w items symbol_table func nested_path k1")
          case (Inl e)
          moreover from Inl ks
          have "infer_keys grt w items symbol_table f' nested_path k1 = Inl e" by simp
          ultimately show ?thesis using fl1 fl2 nv ne by auto
        next
          case (Inr r2)
          obtain kts k2 where r2: "r2 = (kts, k2)" by (cases r2) auto
          have ks1: "infer_keys grt w items symbol_table func nested_path k1 = Inr (kts, k2)"
            using Inr r2 by simp
          have ks2: "infer_keys grt w items symbol_table f' nested_path k1 = Inr (kts, k2)"
            using ks ks1 by simp
          have vs: "infer_values grt w items symbol_table func nested_path k2 =
            infer_values grt w items symbol_table f' nested_path k2"
            using "15.IH"(3) fl1 nv ne ks1 "15.prems" by auto
          show ?thesis
            using fl1 fl2 nv ne ks1 ks2 vs by auto
        qed
      qed
    qed
  qed
qed (simp_all add: get_module_type_def split: sum.splits option.splits prod.splits)


lemma analyze_args_func_cong:
  assumes "func_module f' = func_module f"
  shows "analyze_args grt w args st f k = analyze_args grt w args st f' k"
  using assms
proof (induction grt w args st f k rule: analyze_args.induct)
  case (3 grt w arg annotation rest symbol_table func k)
  then show ?case
    using resolve_func_cong(1) [of f' func grt w annotation k]
    by (auto simp: fun_upd_def split: sum.splits)
qed simp_all

lemma analyze_nodes_func_cong:
  assumes "func_name f' = func_name f" "func_module f' = func_module f"
  shows "analyze_nodes grt w nodes st f k = analyze_nodes grt w nodes st f' k"
  using assms
proof (induction grt w nodes st f k rule: analyze_nodes.induct)
  case (2 grt w targets val rest symbol_table func k)
  then show ?case
    using infer_func_cong(1) [of f' func grt w val symbol_table "[]" k]
    by (simp split: sum.splits)
next
  case (3 grt w ident annotation val rest symbol_table func k)
  then show ?case
    using resolve_func_cong(1) [of f' func grt w annotation k]
    by (auto simp: fun_upd_def split: sum.splits)
qed simp_all

lemma infer_returns_func_cong:
  assumes "func_name f' = func_name f" "func_module f' = func_module f"
  shows "infer_returns grt w nodes st f k = infer_returns grt w nodes st f' k"
  using assms
proof (induction grt w nodes st f k rule: infer_returns.induct)
  case (2 grt w val rest symbol_table func k)
  then show ?case
    using infer_func_cong(1) [of f' func grt w val symbol_table "[]" k]
    by (simp split: sum.splits)
qed simp_all

lemma infer_from_body_func_cong:
  assumes "func_name f' = func_name f" "func_module f' = func_module f"
  shows "infer_from_body grt w (FunctionDef name args body returns) f k =
         infer_from_body grt w (FunctionDef name args body returns) f' k"
proof -
  have a: "analyze_args grt w args Map.empty f k = analyze_args grt w args Map.empty f' k"
    using assms analyze_args_func_cong by blast
  have b: "analyze_nodes grt w nodes st f j = analyze_nodes grt w nodes st f' j" for nodes st j
    using assms analyze_nodes_func_cong by blast
  have c: "infer_returns grt w nodes st f j = infer_returns grt w nodes st f' j" for nodes st j
    using assms infer_returns_func_cong by blast
  show ?thesis
    unfolding infer_from_body_def analyze_function_body.simps a b c ..
qed

lemma get_return_type_body_func_cong:
  assumes "func_name f' = func_name f" "func_module f' = func_module f"
    and "func_source f' = func_source f" "return_annotation f' = return_annotation f"
  shows "get_return_type_body grt w f k = get_return_type_body grt w f' k"
proof (cases "return_annotation f")
  case (Some t)
  then show ?thesis using assms by (simp add: get_return_type_body_def)
next
  case None
  show ?thesis
  proof (cases "func_source f")
    case (Parsed module_body)
    show ?thesis
    proof (cases module_body)
      case Nil
      then show ?thesis using None Parsed assms by (simp add: get_return_type_body_def)
    next
      case (Cons func_def others)
      have r: "resolve_annotation grt w a f k = resolve_annotation grt w a f' k" for a
        using assms resolve_func_cong(1) by blast
      show ?thesis
      proof (cases func_def)
        case (FunctionDef name args body returns)
        then show ?thesis
          using None Parsed Cons assms r
            infer_from_body_func_cong [OF assms(1,2), of grt w name args body returns k]
          by (simp add: get_return_type_body_def split: option.splits)
      qed (use None Parsed Cons assms in \<open>simp_all add: get_return_type_body_def\<close>)
    qed
  qed (use None assms in \<open>simp_all add: get_return_type_body_def\<close>)
qed

text \<open>
  C9.  A call of \<open>fill_inferred_type_hints\<close> that returns leaves in the annotation slot
  \<open>return\<close> the type that \<open>get_return_type\<close> gives for the function, and every later
  call, at any depth, in any world and state, returns the function unchanged without
  computing anything.  The call raises exactly when \<open>get_return_type\<close> raises.
\<close>

theorem fill_inferred_type_hints_idempotent:
  "(fill_inferred_type_hints (Suc depth) w func k = Inr (func', k') \<longrightarrow>
      (\<exists>t. get_return_type (Suc depth) w func k = Inr (t, k') \<and>
           return_annotation func' = Some t \<and>
           (\<forall>depth' w' k''. fill_inferred_type_hints depth' w' func' k'' = Inr (func', k'')))) \<and>
   (fill_inferred_type_hints (Suc depth) w func k = Inl e \<longleftrightarrow>
      get_return_type (Suc depth) w func k = Inl e)"
proof -
  define annotations where "annotations =
    (case func_annotations func of None \<Rightarrow> Map.empty
     | Some a \<Rightarrow> if a = Map.empty then Map.empty else a)"
  define func1 where "func1 = func\<lparr>func_annotations := Some annotations\<rparr>"
  have ra: "return_annotation func1 = return_annotation func"
    by (auto simp: func1_def annotations_def return_annotation_def split: option.splits)
  have ra1: "return_annotation func1 = annotations ''return''"
    by (simp add: func1_def return_annotation_def)
  have grt: "get_return_type (Suc depth) w func1 k = get_return_type (Suc depth) w func k"
    using get_return_type_body_func_cong [of func func1 "get_return_type depth w" w k] ra
    by (simp add: func1_def)
  have fill: "fill_inferred_type_hints (Suc depth) w func k =
      (if annotations ''return'' = None then
         (case get_return_type (Suc depth) w func k of
            Inl e \<Rightarrow> Inl e
          | Inr (t, k1) \<Rightarrow>
              Inr (func1\<lparr>func_annotations := Some (annotations(''return'' \<mapsto> t))\<rparr>, k1))
       else Inr (func1, k))"
    unfolding fill_inferred_type_hints_def Let_def annotations_def [symmetric]
      func1_def [symmetric] grt ..
  have again: "fill_inferred_type_hints depth' w' g k'' = Inr (g, k'')"
    if "func_annotations g = Some a" "a ''return'' = Some t" for depth' w' g k'' a t
  proof -
    have "a \<noteq> Map.empty" using that by auto
    then show ?thesis using that by (simp add: fill_inferred_type_hints_def)
  qed
  show ?thesis
  proof (cases "annotations ''return''")
    case None
    then have "return_annotation func = None" using ra ra1 by simp
    show ?thesis
      using None fill again [where a = "annotations(''return'' \<mapsto> t)" for t]
      by (auto simp: return_annotation_def split: sum.splits)
  next
    case (Some t)
    then have "return_annotation func = Some t" using ra ra1 by simp
    then have g: "get_return_type (Suc depth) w func k = Inr (t, k)"
      by (simp add: get_return_type_body_def)
    have "func_annotations func1 = Some annotations" by (simp add: func1_def)
    from again [OF this Some] Some fill g ra1 show ?thesis
      by auto
  qed
qed

theorem fill_inferred_type_hints_idempotent_witness:
  "fill_inferred_type_hints (Suc 0) empty_world
     (plain_function ''get_user'' [Return (Some dict_a_b)]) 0 =
     Inr (filled_function, Suc 0) \<and>
   get_return_type (Suc 0) empty_world
     (plain_function ''get_user'' [Return (Some dict_a_b)]) 0 =
     Inr (TypedDict 0 ''GetUserReturn'' [(''a'', py_int), (''b'', py_str)], Suc 0) \<and>
   return_annotation filled_function =
     Some (TypedDict 0 ''GetUserReturn'' [(''a'', py_int), (''b'', py_str)]) \<and>
   fill_inferred_type_hints (Suc 0) empty_world filled_function (Suc 0) =
     Inr (filled_function, Suc 0)"
proof -
  let ?f = "plain_function ''get_user'' [Return (Some dict_a_b)]"
  have g: "get_return_type (Suc 0) empty_world ?f 0 =
      Inr (TypedDict 0 ''GetUserReturn'' [(''a'', py_int), (''b'', py_str)], Suc 0)"
    by (simp add: plain_function_def get_return_type_body_def return_annotation_def
        infer_from_body_def ast_walk_def dict_a_b_def typed_dict_class_name_def
        TypedDict_call_def snake_case_to_capital_case_def to_upper_def to_lower_def
        lower_chars_def upper_chars_def)
  have f: "fill_inferred_type_hints (Suc 0) empty_world ?f 0 = Inr (filled_function, Suc 0)"
    using g by (simp add: fill_inferred_type_hints_def plain_function_def filled_function_def)
  from fill_inferred_type_hints_idempotent
    [of 0 empty_world ?f 0 filled_function "Suc 0" SyntaxError] f g
  show ?thesis by auto
qed

subsection \<open>The walk over the function definition\<close>

lemma walk_queue_leaves:
  "\<forall>node \<in> set queue. iter_child_stmts node = [] \<Longrightarrow> walk_queue queue = queue"
  by (induction queue) auto

lemma ast_walk_FunctionDef:
  "ast_walk (FunctionDef name args body returns) =
     FunctionDef name args body returns # walk_queue body"
  by (simp add: ast_walk_def)

lemma queue_subset_walk: "set queue \<subseteq> set (walk_queue queue)"
  by (induction queue rule: walk_queue.induct) auto

lemma children_in_walk:
  "node \<in> set (walk_queue queue) \<Longrightarrow> set (iter_child_stmts node) \<subseteq> set (walk_queue queue)"
proof (induction queue rule: walk_queue.induct)
  case 1
  then show ?case by simp
next
  case (2 first todo)
  show ?case
  proof (cases "node \<in> set (walk_queue (todo @ iter_child_stmts first))")
    case True
    with 2 show ?thesis by auto
  next
    case False
    with "2.prems" have "node = first" by simp
    moreover have "set (iter_child_stmts first) \<subseteq> set (walk_queue (todo @ iter_child_stmts first))"
      using queue_subset_walk [of "todo @ iter_child_stmts first"] by simp
    ultimately show ?thesis by auto
  qed
qed

lemma walk_closed:
  "set queue' \<subseteq> set (walk_queue queue) \<Longrightarrow> set (walk_queue queue') \<subseteq> set (walk_queue queue)"
proof (induction queue' rule: walk_queue.induct)
  case 1
  then show ?case by simp
next
  case (2 first todo)
  then have "first \<in> set (walk_queue queue)" by simp
  then have "set (iter_child_stmts first) \<subseteq> set (walk_queue queue)"
    by (rule children_in_walk)
  with 2 show ?case by simp
qed

lemma ast_walk_trans:
  "inner \<in> set (ast_walk outer) \<Longrightarrow> node \<in> set (ast_walk inner) \<Longrightarrow> node \<in> set (ast_walk outer)"
  using walk_closed [of "[inner]" "[outer]"] by (auto simp: ast_walk_def)

lemma assign_targets_apply:
  "assign_targets targets t symbol_table x =
     (if Name x \<in> set targets then Some t else symbol_table x)"
  by (induction targets t symbol_table rule: assign_targets.induct) (auto simp: fun_upd_def)

lemma analyze_nodes_append:
  "analyze_nodes grt w (xs @ ys) symbol_table func k =
     (case analyze_nodes grt w xs symbol_table func k of
        Inl e \<Rightarrow> Inl e
      | Inr (symbol_table1, k1) \<Rightarrow> analyze_nodes grt w ys symbol_table1 func k1)"
  by (induction grt w xs symbol_table func k rule: analyze_nodes.induct)
     (auto simp: fun_upd_def split: sum.splits)

lemma infer_returns_member:
  "infer_returns grt w nodes symbol_table func k = Inr (ts, k') \<Longrightarrow>
   Return (Some e) \<in> set nodes \<Longrightarrow>
   \<exists>k1 t k2. infer_expr_type grt w e symbol_table func [] k1 = Inr (t, k2) \<and> t \<in> set ts"
proof (induction grt w nodes symbol_table func k arbitrary: ts k' rule: infer_returns.induct)
  case (2 grt w val rest symbol_table func k)
  then show ?case by (auto split: sum.splits) blast+
qed auto


text \<open>
  C10.  The walk goes into nested function definitions: every statement below an inner
  function definition is a node of the walk of the outer one.  A \<open>return\<close> with a value
  inside the inner function therefore has an entry in the return types of the outer
  function, and an assignment inside the inner function is processed in the pass over
  the outer function: when its turn comes, every name among its targets is set in the
  symbol table of the outer function, whatever was there, and the pass goes on from that
  table.
\<close>

theorem nested_function_is_walked:
  assumes "inner = FunctionDef inner_name inner_args inner_body inner_returns"
    and "inner \<in> set (ast_walk outer)"
    and "node \<in> set (ast_walk inner)"
  shows "node \<in> set (ast_walk outer) \<and>
    (\<forall>val return_types k k'.
       node = Return (Some val) \<and>
       infer_returns grt w (ast_walk outer) symbol_table func k = Inr (return_types, k') \<longrightarrow>
       (\<exists>k1 t k2. infer_expr_type grt w val symbol_table func [] k1 = Inr (t, k2) \<and>
          t \<in> set return_types)) \<and>
    (\<forall>targets val final_table k k'.
       node = Assign targets val \<and>
       analyze_nodes grt w (ast_walk outer) symbol_table func k = Inr (final_table, k') \<longrightarrow>
       (\<exists>before after table1 k1 t k2.
          ast_walk outer = before @ node # after \<and>
          analyze_nodes grt w before symbol_table func k = Inr (table1, k1) \<and>
          infer_expr_type grt w val table1 func [] k1 = Inr (t, k2) \<and>
          (\<forall>x. Name x \<in> set targets \<longrightarrow> assign_targets targets t table1 x = Some t) \<and>
          analyze_nodes grt w after (assign_targets targets t table1) func k2 =
            Inr (final_table, k')))"
proof -
  have in_outer: "node \<in> set (ast_walk outer)"
    using assms(2,3) by (rule ast_walk_trans)
  have ret: "\<exists>k1 t k2. infer_expr_type grt w val symbol_table func [] k1 = Inr (t, k2) \<and>
      t \<in> set return_types"
    if "node = Return (Some val)"
      "infer_returns grt w (ast_walk outer) symbol_table func k = Inr (return_types, k')"
    for val return_types k k'
    using infer_returns_member [OF that(2)] in_outer that(1) by simp
  have asg: "\<exists>before after table1 k1 t k2.
      ast_walk outer = before @ node # after \<and>
      analyze_nodes grt w before symbol_table func k = Inr (table1, k1) \<and>
      infer_expr_type grt w val table1 func [] k1 = Inr (t, k2) \<and>
      (\<forall>x. Name x \<in> set targets \<longrightarrow> assign_targets targets t table1 x = Some t) \<and>
      analyze_nodes grt w after (assign_targets targets t table1) func k2 = Inr (final_table, k')"
    if n: "node = Assign targets val"
      and a: "analyze_nodes grt w (ast_walk outer) symbol_table func k = Inr (final_table, k')"
    for targets val final_table k k'
  proof -
    from in_outer obtain before after where split: "ast_walk outer = before @ node # after"
      by (auto simp: in_set_conv_decomp)
    from a obtain table1 k1 where
      b: "analyze_nodes grt w before symbol_table func k = Inr (table1, k1)" and
      r: "analyze_nodes grt w (node # after) table1 func k1 = Inr (final_table, k')"
      unfolding split analyze_nodes_append by (auto split: sum.splits)
    from r n obtain t k2 where
      i: "infer_expr_type grt w val table1 func [] k1 = Inr (t, k2)" and
      c: "analyze_nodes grt w after (assign_targets targets t table1) func k2 =
          Inr (final_table, k')"
      by (auto split: sum.splits)
    have "\<forall>x. Name x \<in> set targets \<longrightarrow> assign_targets targets t table1 x = Some t"
      by (simp add: assign_targets_apply)
    with split b i c show ?thesis by blast
  qed
  show ?thesis using in_outer ret asg by blast
qed

text \<open>
  In the example the assignment \<open>x = "s"\<close> of the inner function comes after the
  assignment \<open>x = 1\<close> of the outer one in the walk, and the inner \<open>return x\<close> adds \<open>str\<close>
  to the return types of the outer function.
\<close>

theorem nested_function_is_walked_witness:
  "nested_def \<in> set (ast_walk (FunctionDef ''f'' [] nested_body None)) \<and>
   Return (Some (Name ''x'')) \<in> set (ast_walk nested_def) \<and>
   Return (Some (Name ''x'')) \<in> set (ast_walk (FunctionDef ''f'' [] nested_body None)) \<and>
   get_return_type (Suc 0) empty_world (plain_function ''f'' nested_body) 0 =
     Inr (TUnion {|py_str, py_float|}, 0)"
proof -
  have a: "nested_def = FunctionDef ''helper'' []
       [Assign [Name ''x''] (Constant (KStr ''s'')), Return (Some (Name ''x''))] None"
    by (simp add: nested_def_def)
  have b: "nested_def \<in> set (ast_walk (FunctionDef ''f'' [] nested_body None))"
    by (simp add: ast_walk_def nested_body_def nested_def_def)
  have c: "Return (Some (Name ''x'')) \<in> set (ast_walk nested_def)"
    by (simp add: ast_walk_def nested_def_def)
  have d: "get_return_type (Suc 0) empty_world (plain_function ''f'' nested_body) 0 =
     Inr (TUnion {|py_str, py_float|}, 0)"
    by (simp add: plain_function_def get_return_type_body_def return_annotation_def
      infer_from_body_def ast_walk_def nested_body_def nested_def_def Union_of_set_def
      Union_getitem_def)
  from nested_function_is_walked [OF a b c] b c d show ?thesis by blast
qed


subsection \<open>Returns and later assignments\<close>

lemma analyze_nodes_skip_return:
  "analyze_nodes grt w (Return val # rest) symbol_table func k =
     analyze_nodes grt w rest symbol_table func k"
  by simp

lemma sum_case_eta:
  "(case r of Inl e \<Rightarrow> Inl e | Inr (a, b) \<Rightarrow> Inr (a, b)) = r"
  by (auto split: sum.splits)

lemma analyze_nodes_move_return:
  "analyze_nodes grt w (pre @ Return val # post) symbol_table func k =
   analyze_nodes grt w (pre @ post @ [Return val]) symbol_table func k"
proof -
  have "analyze_nodes grt w (pre @ post @ [Return val]) symbol_table func k =
      analyze_nodes grt w ((pre @ post) @ [Return val]) symbol_table func k"
    by simp
  also have "\<dots> = analyze_nodes grt w (pre @ post) symbol_table func k"
    by (simp only: analyze_nodes_append [of _ _ "pre @ post"] analyze_nodes_skip_return
        analyze_nodes.simps(1) sum_case_eta)
  also have "\<dots> = analyze_nodes grt w (pre @ Return val # post) symbol_table func k"
    by (simp add: analyze_nodes_append cong: sum.case_cong)
  finally show ?thesis ..
qed

lemma infer_returns_assign:
  "list_all is_assign xs \<Longrightarrow>
   infer_returns grt w (xs @ ys) symbol_table func k = infer_returns grt w ys symbol_table func k"
  by (induction xs) (auto simp: is_assign_def split: stmt.splits)

lemma infer_returns_move_return:
  assumes "list_all is_assign pre" "list_all is_assign post"
  shows "infer_returns grt w (pre @ Return val # post) symbol_table func k =
         infer_returns grt w (pre @ post @ [Return val]) symbol_table func k"
proof -
  have a: "infer_returns grt w post symbol_table func j = Inr ([], j)" for j
    using infer_returns_assign [OF assms(2), of grt w "[]" symbol_table func j] by simp
  have "infer_returns grt w (pre @ Return val # post) symbol_table func k =
      infer_returns grt w (Return val # post) symbol_table func k"
    by (rule infer_returns_assign [OF assms(1)])
  also have "\<dots> = infer_returns grt w [Return val] symbol_table func k"
    by (cases val) (simp_all add: a split: sum.splits)
  also have "\<dots> = infer_returns grt w (post @ [Return val]) symbol_table func k"
    by (rule infer_returns_assign [OF assms(2), symmetric])
  also have "\<dots> = infer_returns grt w (pre @ post @ [Return val]) symbol_table func k"
    by (rule infer_returns_assign [OF assms(1), symmetric])
  finally show ?thesis .
qed

lemma is_assign_leaf: "is_assign node \<Longrightarrow> iter_child_stmts node = []"
  by (cases node) (simp_all add: is_assign_def)

text \<open>
  C2 (as amended).  All assignments of the function are processed before the type of any
  return statement is inferred, and every return is inferred with the final symbol
  table.  For a return statement among straight-line assignments the result is hence the
  same wherever the return stands: an assignment after it counts as much as one before
  it.
\<close>

theorem return_position_irrelevant:
  assumes "list_all is_assign pre" and "list_all is_assign post"
  shows "get_return_type (Suc depth) w
           (func\<lparr>func_source :=
              Parsed (FunctionDef name args (pre @ Return val # post) None # others)\<rparr>) k =
         get_return_type (Suc depth) w
           (func\<lparr>func_source :=
              Parsed (FunctionDef name args (pre @ post @ [Return val]) None # others)\<rparr>) k"
proof -
  let ?grt = "get_return_type depth w"
  let ?d1 = "FunctionDef name args (pre @ Return val # post) None"
  let ?d2 = "FunctionDef name args (pre @ post @ [Return val]) None"
  let ?f1 = "func\<lparr>func_source := Parsed (?d1 # others)\<rparr>"
  let ?f2 = "func\<lparr>func_source := Parsed (?d2 # others)\<rparr>"
  have leaves: "\<forall>node \<in> set pre \<union> set post. iter_child_stmts node = []"
    using assms by (auto simp: list_all_iff is_assign_leaf)
  have w1: "ast_walk ?d1 = ?d1 # pre @ Return val # post"
    using leaves by (simp add: ast_walk_FunctionDef walk_queue_leaves)
  have w2: "ast_walk ?d2 = ?d2 # pre @ post @ [Return val]"
    using leaves by (simp add: ast_walk_FunctionDef walk_queue_leaves)
  have cong1: "infer_from_body ?grt w ?d1 ?f1 k = infer_from_body ?grt w ?d1 ?f2 k"
    by (rule infer_from_body_func_cong) simp_all
  have an1: "analyze_nodes ?grt w (ast_walk ?d1) st ?f2 j =
      analyze_nodes ?grt w (ast_walk ?d2) st ?f2 j" for st j
    by (simp add: w1 w2 analyze_nodes_move_return)
  have an: "analyze_function_body ?grt w ?d1 Map.empty ?f2 k =
      analyze_function_body ?grt w ?d2 Map.empty ?f2 k"
    unfolding analyze_function_body.simps an1 ..
  have ir: "infer_returns ?grt w (ast_walk ?d1) st ?f2 j =
      infer_returns ?grt w (ast_walk ?d2) st ?f2 j" for st j
    by (simp add: w1 w2 infer_returns_move_return [OF assms])
  have body: "infer_from_body ?grt w ?d1 ?f1 k = infer_from_body ?grt w ?d2 ?f2 k"
    unfolding cong1 unfolding infer_from_body_def an ir ..
  show ?thesis
    by (cases "return_annotation func")
       (simp_all add: get_return_type_body_def return_annotation_def body)
qed


theorem return_position_irrelevant_witness:
  "list_all is_assign [Assign [Name ''x''] (Constant (KInt 1))] \<and>
   get_return_type (Suc 0) empty_world (plain_function ''f'' return_before_assign) 0 =
     Inr (py_int, 0)"
proof -
  have a: "list_all is_assign []" by simp
  have b: "list_all is_assign [Assign [Name ''x''] (Constant (KInt 1))]"
    by (simp add: is_assign_def)
  have c: "get_return_type (Suc 0) empty_world
      (plain_function ''f'' [Assign [Name ''x''] (Constant (KInt 1)), Return (Some (Name ''x''))]) 0 =
      Inr (py_int, 0)"
    by (simp add: plain_function_def get_return_type_body_def return_annotation_def
        infer_from_body_def ast_walk_def)
  from return_position_irrelevant [OF a b, where depth = 0 and w = empty_world
      and func = "plain_function ''f'' []" and name = "''f''" and args = "[]"
      and val = "Some (Name ''x'')" and others = "[]" and k = 0] c
  have "get_return_type (Suc 0) empty_world
      (plain_function ''f'' return_before_assign) 0 = Inr (py_int, 0)"
    by (simp add: plain_function_def return_before_assign_def)
  with b show ?thesis by simp
qed

text \<open>
  C2 as stated fails: with the assignment \<open>x = 1\<close> after \<open>return x\<close> the result is
  \<open>int\<close>, without it the result is \<open>Any\<close>.
\<close>

theorem later_assignment_counterexample:
  "get_return_type (Suc 0) empty_world (plain_function ''f'' return_before_assign) 0 =
     Inr (py_int, 0) \<and>
   get_return_type (Suc 0) empty_world (plain_function ''f'' [Return (Some (Name ''x''))]) 0 =
     Inr (TAny, 0)"
  by (simp add: plain_function_def get_return_type_body_def return_annotation_def
      infer_from_body_def ast_walk_def return_before_assign_def empty_world_def
      example_builtins_def get_module_type_def)

end
